theory Spec2Isabelle
  imports Main "HOL-Library.Word" "HOL-Library.Sublist" "HOL-Library.AList"
begin

section \<open>Strings and JSON values\<close>

text \<open>
  A JavaScript string is a sequence of UTF-16 code units. String literals of the scripts
  that are plain ASCII are written with \<open>lit\<close>; the others (Hebrew sample texts, emoji)
  are written as their code units.
\<close>

type_synonym jsstr = "16 word list"

definition lit :: "string \<Rightarrow> jsstr" where
  "lit s = map of_char s"

definition nl :: jsstr where
  "nl = [0x0A]"

text \<open>
  \<open>String.prototype.trim\<close> removes the WhiteSpace and LineTerminator code points of
  ECMAScript from both ends.
\<close>

definition is_white_space :: "16 word \<Rightarrow> bool" where
  "is_white_space c \<longleftrightarrow>
     c \<in> {0x09, 0x0A, 0x0B, 0x0C, 0x0D, 0x20, 0xA0, 0x1680, 0x2028, 0x2029, 0x202F,
          0x205F, 0x3000, 0xFEFF}
     \<or> (0x2000 \<le> c \<and> c \<le> 0x200A)"

definition trim :: "jsstr \<Rightarrow> jsstr" where
  "trim s = rev (dropWhile is_white_space (rev (dropWhile is_white_space s)))"

text \<open>Decimal digits of a natural number, as template literals print an integer.\<close>

fun decimal :: "nat \<Rightarrow> jsstr" where
  "decimal n = (if n < 10 then [of_nat (48 + n)]
                else decimal (n div 10) @ [of_nat (48 + n mod 10)])"

declare decimal.simps [simp del]

text \<open>
  The value \<open>JSON.parse\<close> returns. The payload of a number is left abstract (type
  \<open>'n\<close>): the scripts only ask whether it is zero (truthiness) and print it. An object
  is the list of its own properties, with distinct keys as \<open>JSON.parse\<close> builds it.
  A JavaScript value read from a property is \<open>'n json option\<close>, \<open>None\<close> being
  \<open>undefined\<close>.
\<close>

datatype 'n json =
    JNull
  | JBool bool
  | JNumber 'n
  | JString jsstr
  | JArray "'n json list"
  | JObject "(jsstr \<times> 'n json) list"

datatype type_error =
    ReadPropertyOfNull jsstr
  | InOperatorOnPrimitive jsstr
  | CannotConvertToPrimitive
  | NotAFunction jsstr

text \<open>
  \<open>Error m\<close> is \<open>new Error(m)\<close>; the other two are raised by the engine, and the text
  of their message is the engine's.
\<close>

datatype error =
    Error jsstr
  | TypeError type_error
  | URIError

fun typeof :: "'n json option \<Rightarrow> jsstr" where
  "typeof None = lit ''undefined''"
| "typeof (Some JNull) = lit ''object''"
| "typeof (Some (JBool b)) = lit ''boolean''"
| "typeof (Some (JNumber n)) = lit ''number''"
| "typeof (Some (JString s)) = lit ''string''"
| "typeof (Some (JArray xs)) = lit ''object''"
| "typeof (Some (JObject kvs)) = lit ''object''"

fun truthy :: "('n::zero) json option \<Rightarrow> bool" where
  "truthy None = False"
| "truthy (Some JNull) = False"
| "truthy (Some (JBool b)) = b"
| "truthy (Some (JNumber n)) = (n \<noteq> 0)"
| "truthy (Some (JString s)) = (s \<noteq> [])"
| "truthy (Some (JArray xs)) = True"
| "truthy (Some (JObject kvs)) = True"

text \<open>
  Reading a property \<open>v.k\<close> and the test \<open>k in v\<close>, for the names the scripts use
  (\<open>status\<close>, \<open>intent\<close>, \<open>message\<close>, \<open>registration_url\<close>, \<open>reminder_title\<close>,
  \<open>reminder_time\<close>, \<open>reminder_date\<close>, \<open>clarification_for\<close>). None of them is an
  array index, \<open>length\<close> or a member of a built-in prototype, so on an object only its
  own properties count, and on an array, a string, a number or a boolean the property is
  \<open>undefined\<close>. Reading a property of \<open>null\<close> throws; so does \<open>in\<close> on a value
  that is not an object.
\<close>

fun get_prop :: "'n json \<Rightarrow> jsstr \<Rightarrow> error + 'n json option" where
  "get_prop JNull k = Inl (TypeError (ReadPropertyOfNull k))"
| "get_prop (JObject kvs) k = Inr (map_of kvs k)"
| "get_prop (JBool b) k = Inr None"
| "get_prop (JNumber n) k = Inr None"
| "get_prop (JString s) k = Inr None"
| "get_prop (JArray xs) k = Inr None"

fun js_in :: "jsstr \<Rightarrow> 'n json \<Rightarrow> error + bool" where
  "js_in k (JObject kvs) = Inr (map_of kvs k \<noteq> None)"
| "js_in k (JArray xs) = Inr False"
| "js_in k JNull = Inl (TypeError (InOperatorOnPrimitive k))"
| "js_in k (JBool b) = Inl (TypeError (InOperatorOnPrimitive k))"
| "js_in k (JNumber n) = Inl (TypeError (InOperatorOnPrimitive k))"
| "js_in k (JString s) = Inl (TypeError (InOperatorOnPrimitive k))"

text \<open>Optional chaining \<open>v?.k\<close>: \<open>undefined\<close> when \<open>v\<close> is \<open>null\<close>.\<close>

definition opt_chain :: "'n json \<Rightarrow> jsstr \<Rightarrow> error + 'n json option" where
  "opt_chain v k = (if v = JNull then Inr None else get_prop v k)"

text \<open>
  \<open>v.trim()\<close>: the method exists on strings only; on \<open>undefined\<close> and \<open>null\<close> the
  property read throws, on any other value \<open>trim\<close> is \<open>undefined\<close> and the call throws.
\<close>

fun call_trim :: "'n json option \<Rightarrow> error + jsstr" where
  "call_trim (Some (JString s)) = Inr (trim s)"
| "call_trim None = Inl (TypeError (ReadPropertyOfNull (lit ''trim'')))"
| "call_trim (Some JNull) = Inl (TypeError (ReadPropertyOfNull (lit ''trim'')))"
| "call_trim (Some v) = Inl (TypeError (NotAFunction (lit ''trim'')))"

text \<open>
  Converting a parsed value to a string (the \<open>+\<close> of a string and a value). An object
  whose own property \<open>toString\<close> shadows \<open>Object.prototype.toString\<close> cannot be
  converted, since no JSON value is callable and \<open>valueOf\<close> gives back the object: the
  conversion throws a TypeError. An array is joined, converting each element that is not
  \<open>null\<close>, so it throws when an element does.
\<close>

fun to_string_throws :: "'n json \<Rightarrow> bool" where
  "to_string_throws (JObject kvs) = (map_of kvs (lit ''toString'') \<noteq> None)"
| "to_string_throws (JArray xs) = (\<exists>x \<in> set xs. to_string_throws x)"
| "to_string_throws JNull = False"
| "to_string_throws (JBool b) = False"
| "to_string_throws (JNumber n) = False"
| "to_string_throws (JString s) = False"

text \<open>
  What \<open>console.log\<close> and \<open>console.error\<close> receive: a list of arguments per call. The
  formatting of a value by the console, of a number or an array by \<open>+\<close>, of
  \<open>JSON.stringify(v, null, 2)\<close> and of an engine's error message are not modelled: the
  argument records what is printed.
\<close>

datatype 'n arg =
    Str jsstr
  | Num nat
  | Flag bool
  | Val "'n json option"
  | Concat jsstr "'n json"
  | Stringified "'n json"
  | EngineMessage error

fun concat_str :: "jsstr \<Rightarrow> 'n json option \<Rightarrow> error + 'n arg" where
  "concat_str p None = Inr (Str (p @ lit ''undefined''))"
| "concat_str p (Some JNull) = Inr (Str (p @ lit ''null''))"
| "concat_str p (Some (JBool b)) = Inr (Str (p @ (if b then lit ''true'' else lit ''false'')))"
| "concat_str p (Some (JNumber n)) = Inr (Concat p (JNumber n))"
| "concat_str p (Some (JString s)) = Inr (Str (p @ s))"
| "concat_str p (Some (JArray xs)) =
     (if to_string_throws (JArray xs) then Inl (TypeError CannotConvertToPrimitive)
      else Inr (Concat p (JArray xs)))"
| "concat_str p (Some (JObject kvs)) =
     (if to_string_throws (JObject kvs) then Inl (TypeError CannotConvertToPrimitive)
      else Inr (Str (p @ lit ''[object Object]'')))"

fun message_arg :: "error \<Rightarrow> 'n arg" where
  "message_arg (Error m) = Str m"
| "message_arg e = EngineMessage e"

section \<open>encodeURIComponent\<close>

definition uri_unreserved :: "16 word \<Rightarrow> bool" where
  "uri_unreserved c \<longleftrightarrow>
     (0x41 \<le> c \<and> c \<le> 0x5A) \<or> (0x61 \<le> c \<and> c \<le> 0x7A) \<or> (0x30 \<le> c \<and> c \<le> 0x39)
     \<or> c \<in> {0x2D, 0x5F, 0x2E, 0x21, 0x7E, 0x2A, 0x27, 0x28, 0x29}"

definition hex_digit :: "nat \<Rightarrow> 16 word" where
  "hex_digit d = (if d < 10 then of_nat (48 + d) else of_nat (55 + d))"

definition percent :: "nat \<Rightarrow> jsstr" where
  "percent b = [0x25, hex_digit (b div 16), hex_digit (b mod 16)]"

definition utf8 :: "nat \<Rightarrow> nat list" where
  "utf8 cp =
     (if cp < 0x80 then [cp]
      else if cp < 0x800 then [0xC0 + cp div 64, 0x80 + cp mod 64]
      else if cp < 0x10000 then
        [0xE0 + cp div 4096, 0x80 + (cp div 64) mod 64, 0x80 + cp mod 64]
      else
        [0xF0 + cp div 262144, 0x80 + (cp div 4096) mod 64, 0x80 + (cp div 64) mod 64,
         0x80 + cp mod 64])"

definition escape :: "nat \<Rightarrow> jsstr" where
  "escape cp = concat (map percent (utf8 cp))"

fun encodeURIComponent :: "jsstr \<Rightarrow> error + jsstr" where
  "encodeURIComponent [] = Inr []"
| "encodeURIComponent (c # cs) =
     (if uri_unreserved c then map_sum id ((#) c) (encodeURIComponent cs)
      else if 0xDC00 \<le> c \<and> c \<le> 0xDFFF then Inl URIError
      else if 0xD800 \<le> c \<and> c \<le> 0xDBFF then
        (case cs of
           [] \<Rightarrow> Inl URIError
         | d # ds \<Rightarrow>
             if 0xDC00 \<le> d \<and> d \<le> 0xDFFF
             then map_sum id
                    ((@) (escape ((unat c - 0xD800) * 0x400 + (unat d - 0xDC00) + 0x10000)))
                    (encodeURIComponent ds)
             else Inl URIError)
      else map_sum id ((@) (escape (unat c))) (encodeURIComponent cs))"

section \<open>The world of a run: console, network, exceptions\<close>

record 'n request =
  req_url :: jsstr
  req_method :: jsstr
  req_headers :: "(jsstr \<times> jsstr) list"
  req_body :: "'n json option"

text \<open>
  The \<open>Response\<close> of \<open>fetch\<close>: its status and the text of its body. \<open>res.ok\<close> is
  true exactly for a status from 200 to 299.
\<close>

record response =
  res_status :: nat
  res_text :: jsstr

definition res_ok :: "response \<Rightarrow> bool" where
  "res_ok res \<longleftrightarrow> 200 \<le> res_status res \<and> res_status res \<le> 299"

record 'n world =
  stdout :: "'n arg list list"
  stderr :: "'n arg list list"
  requests :: "'n request list"

definition init :: "'n world" where
  "init = \<lparr>stdout = [], stderr = [], requests = []\<rparr>"

text \<open>
  A computation either returns a value or throws, and leaves the world as it is at that
  point. A throw skips everything that follows it.
\<close>

type_synonym ('n, 'a) js = "'n world \<Rightarrow> (error + 'a) \<times> 'n world"

definition ret :: "'a \<Rightarrow> ('n, 'a) js" where
  "ret x s = (Inr x, s)"

definition throw :: "error \<Rightarrow> ('n, 'a) js" where
  "throw e s = (Inl e, s)"

definition lift :: "error + 'a \<Rightarrow> ('n, 'a) js" where
  "lift r s = (r, s)"

definition bind :: "('n, 'a) js \<Rightarrow> ('a \<Rightarrow> ('n, 'b) js) \<Rightarrow> ('n, 'b) js" where
  "bind m k s = (case m s of (Inl e, s') \<Rightarrow> (Inl e, s') | (Inr x, s') \<Rightarrow> k x s')"

definition seq :: "('n, unit) js \<Rightarrow> ('n, 'b) js \<Rightarrow> ('n, 'b) js" where
  "seq m k = bind m (\<lambda>_. k)"

definition console_log :: "'n arg list \<Rightarrow> ('n, unit) js" where
  "console_log args s = (Inr (), s\<lparr>stdout := stdout s @ [args]\<rparr>)"

definition console_error :: "'n arg list \<Rightarrow> ('n, unit) js" where
  "console_error args s = (Inr (), s\<lparr>stderr := stderr s @ [args]\<rparr>)"

definition assert :: "bool \<Rightarrow> jsstr \<Rightarrow> ('n, unit) js" where
  "assert cond msg = (if \<not> cond then throw (Error (lit ''ASSERT FAILED: '' @ msg)) else ret ())"

section \<open>getJson\<close>

record 'n options =
  opt_method :: jsstr
  opt_headers :: "(jsstr \<times> jsstr) list option"
  opt_body :: "'n json option"

text \<open>
  \<open>{"Content-Type": ..., ...(options.headers || {})}\<close>: the given headers are added,
  replacing an entry with the same name.
\<close>

definition spread_headers :: "(jsstr \<times> jsstr) list \<Rightarrow> (jsstr \<times> jsstr) list option
    \<Rightarrow> (jsstr \<times> jsstr) list" where
  "spread_headers base extra =
     (case extra of
        None \<Rightarrow> base
      | Some hs \<Rightarrow> fold (\<lambda>(k, v) acc. AList.update k v acc) hs base)"

record 'n fetched =
  status :: nat
  ok :: bool
  json :: "'n json"

definition non_json_message :: "jsstr \<Rightarrow> response \<Rightarrow> jsstr" where
  "non_json_message u res =
     lit ''Non-JSON response from '' @ u @ nl @ lit ''Status: '' @ decimal (res_status res)
       @ nl @ lit ''Body:'' @ nl @ res_text res"

text \<open>
  \<open>parse\<close> is \<open>JSON.parse\<close> (\<open>None\<close> when it throws), \<open>fetch\<close> is the network: the
  response to a request, or the error \<open>fetch\<close> or \<open>res.text()\<close> rejects with. The body
  of a request is kept as the value \<open>JSON.stringify\<close> serialises.
\<close>

definition make_request :: "jsstr \<Rightarrow> 'n options \<Rightarrow> 'n request" where
  "make_request u options =
     \<lparr>req_url = u, req_method = opt_method options,
      req_headers = spread_headers
        [(lit ''Content-Type'', lit ''application/json'')] (opt_headers options),
      req_body = opt_body options\<rparr>"

definition getJson :: "(jsstr \<Rightarrow> 'n json option) \<Rightarrow> ('n request \<Rightarrow> error + response)
    \<Rightarrow> jsstr \<Rightarrow> 'n options \<Rightarrow> ('n, 'n fetched) js" where
  "getJson parse fetch u options s =
     (let req = make_request u options;
          s' = s\<lparr>requests := requests s @ [req]\<rparr>
      in case fetch req of
           Inl e \<Rightarrow> (Inl e, s')
         | Inr res \<Rightarrow>
             (case parse (res_text res) of
                None \<Rightarrow> (Inl (Error (non_json_message u res)), s')
              | Some j \<Rightarrow>
                  (Inr \<lparr>status = res_status res, ok = res_ok res, json = j\<rparr>, s')))"

section \<open>debug_note_flow.mjs\<close>

definition BASE_URL :: jsstr where
  "BASE_URL = lit ''https://brain-dump-py.onrender.com''"

definition TECHNICAL_ID :: jsstr where
  "TECHNICAL_ID = lit ''Daniel_iPhone''"

definition NOTE_TEXT :: jsstr where
  "NOTE_TEXT = [1508, 1514, 1511, 32, 1506, 1501, 32, 1512, 1506, 1497, 1493, 1503, 32, 1500,
                1508, 1512, 1493, 1497, 1511, 1496, 32, 1495, 1491, 1513]"

definition quoted :: "jsstr \<Rightarrow> jsstr" where
  "quoted s = [0x27] @ s @ [0x27]"

definition brain_dump_body :: "jsstr \<Rightarrow> 'n json" where
  "brain_dump_body t =
     JObject [(lit ''user_id'', JString TECHNICAL_ID), (lit ''text'', JString t)]"

definition post_options :: "jsstr \<Rightarrow> 'n options" where
  "post_options t =
     \<lparr>opt_method = lit ''POST'', opt_headers = None, opt_body = Some (brain_dump_body t)\<rparr>"

definition get_options :: "'n options" where
  "get_options = \<lparr>opt_method = lit ''GET'', opt_headers = None, opt_body = None\<rparr>"

definition note_ok_line :: "'n arg list" where
  "note_ok_line =
     [Str (nl @ [0x2705] @
        lit '' NOTE CONTRACT OK. This is exactly what the Shortcut should append.'')]"

definition note_mismatch_line :: "'n arg list" where
  "note_mismatch_line =
     [Str (nl @ [0x2139, 0xFE0F] @
        lit '' intent is not 'note' for this input. Try different NOTE_TEXT.'')]"

text \<open>Step 3 of the script (lines 64 to 84): the note contract.\<close>

definition validateNoteContract :: "'n json \<Rightarrow> ('n, unit) js" where
  "validateNoteContract j =
     seq (console_log [Str (nl @ lit ''=== 3) VALIDATE NOTE CONTRACT ==='')])
    (seq (assert (typeof (Some j) = lit ''object'' \<and> j \<noteq> JNull)
            (lit ''Response must be an object''))
    (bind (lift (js_in (lit ''status'') j)) (\<lambda>has_status.
     seq (assert has_status (lit ''Missing '' @ quoted (lit ''status'')))
    (bind (lift (js_in (lit ''intent'') j)) (\<lambda>has_intent.
     seq (assert has_intent (lit ''Missing '' @ quoted (lit ''intent'')))
    (bind (lift (js_in (lit ''message'') j)) (\<lambda>has_message.
     seq (assert has_message (lit ''Missing '' @ quoted (lit ''message'')))
    (bind (lift (get_prop j (lit ''status''))) (\<lambda>st.
     seq (console_log [Str (lit ''status:''), Val st])
    (bind (lift (get_prop j (lit ''intent''))) (\<lambda>it.
     seq (console_log [Str (lit ''intent:''), Val it])
    (bind (lift (get_prop j (lit ''message''))) (\<lambda>m.
     seq (console_log [Str (lit ''message (type):''), Str (typeof m)])
    (bind (lift (get_prop j (lit ''message''))) (\<lambda>m.
     bind (lift (concat_str (lit ''message (value):'' @ nl) m)) (\<lambda>shown.
     seq (console_log [shown])
    (bind (lift (get_prop j (lit ''intent''))) (\<lambda>it.
     if it = Some (JString (lit ''note'')) then
       bind (lift (get_prop j (lit ''status''))) (\<lambda>st.
       seq (assert (st = Some (JString (lit ''SUCCESS'')))
              (lit ''For note, status must be SUCCESS''))
      (bind (lift (get_prop j (lit ''message''))) (\<lambda>m.
       seq (assert (typeof m = lit ''string'') (lit ''For note, message must be a string''))
      (bind (lift (get_prop j (lit ''message''))) (\<lambda>m.
       bind (lift (call_trim m)) (\<lambda>trimmed.
       seq (assert (length trimmed > 0) (lit ''For note, message must not be empty''))
           (console_log note_ok_line)))))))
     else console_log note_mismatch_line))))))))))))))))))"

definition verifyUrl :: "jsstr \<Rightarrow> jsstr" where
  "verifyUrl encoded = BASE_URL @ lit ''/verify-user?user_id='' @ encoded"

definition postUrl :: jsstr where
  "postUrl = BASE_URL @ lit ''/brain-dump''"

text \<open>The body of the script's async function (lines 33 to 85).\<close>

definition noteMain :: "(jsstr \<Rightarrow> ('n::zero) json option) \<Rightarrow> ('n request \<Rightarrow> error + response)
    \<Rightarrow> ('n, unit) js" where
  "noteMain parse fetch =
     seq (console_log [Str (lit ''=== 1) VERIFY USER ==='')])
    (bind (lift (encodeURIComponent TECHNICAL_ID)) (\<lambda>encoded.
     bind (getJson parse fetch (verifyUrl encoded) get_options) (\<lambda>verify.
     seq (console_log [Str (lit ''HTTP:''), Num (status verify), Str (lit ''OK:''),
                       Flag (ok verify)])
    (seq (console_log [Str (lit ''JSON:''), Val (Some (json verify))])
    (bind (lift (opt_chain (json verify) (lit ''registration_url''))) (\<lambda>reg.
     if truthy reg then
       seq (console_log [Str (nl @ lit ''User needs registration. registration_url:'')])
      (bind (lift (get_prop (json verify) (lit ''registration_url''))) (\<lambda>reg_url.
       seq (console_log [Val reg_url])
           (console_log [Str (lit ''Stop here (this matches the shortcut behavior).'')])))
     else
       seq (console_log [Str (nl @ lit ''=== 2) BRAIN DUMP POST ==='')])
      (bind (getJson parse fetch postUrl (post_options NOTE_TEXT)) (\<lambda>bd.
       seq (console_log [Str (lit ''HTTP:''), Num (status bd), Str (lit ''OK:''),
                         Flag (ok bd)])
      (seq (console_log [Str (lit ''JSON:''), Val (Some (json bd))])
           (validateNoteContract (json bd)))))))))))"

text \<open>
  The end of a script, the same in both: when the async function returns, the process
  ends with exit code 0; when it throws, the handler prints the error's message to
  standard error and calls \<open>process.exit(1)\<close>.
\<close>

record 'n outcome =
  final :: "'n world"
  exit_code :: nat

definition error_prefix :: jsstr where
  "error_prefix = nl @ [0x274C] @ lit '' ERROR:''"

definition run :: "('n, unit) js \<Rightarrow> 'n outcome" where
  "run main =
     (case main init of
        (Inr u, s) \<Rightarrow> \<lparr>final = s, exit_code = 0\<rparr>
      | (Inl e, s) \<Rightarrow>
          \<lparr>final = snd (console_error [Str error_prefix, message_arg e] s), exit_code = 1\<rparr>)"

definition debug_note_flow :: "(jsstr \<Rightarrow> ('n::zero) json option)
    \<Rightarrow> ('n request \<Rightarrow> error + response) \<Rightarrow> 'n outcome" where
  "debug_note_flow parse fetch = run (noteMain parse fetch)"

section \<open>debug_reminder_flow.mjs\<close>

definition TEST_WITH_TIME :: jsstr where
  "TEST_WITH_TIME = [1514, 1494, 1499, 1497, 1512, 32, 1500, 1497, 32, 1502, 1495, 1512, 32,
     1489, 1513, 1506, 1492, 32, 53, 32, 1488, 1495, 1492, 1524, 1510, 32, 1500, 1492, 1514,
     1511, 1513, 1512, 32, 1500, 1488, 1502, 1488]"


definition check_mark :: jsstr where
  "check_mark = [0x2705]"

definition phone :: jsstr where
  "phone = [0xD83D, 0xDCF1]"

definition reminder_mismatch_line :: "'n json option \<Rightarrow> 'n arg list" where
  "reminder_mismatch_line it =
     [Str ([0x26A0, 0xFE0F] @ lit ''  Intent is not 'reminder':''), Val it]"

text \<open>The contract validation of \<open>testReminder\<close> (lines 53 to 77).\<close>

definition validateReminderContract :: "'n json \<Rightarrow> ('n, unit) js" where
  "validateReminderContract j =
     seq (console_log [Str (nl @ lit ''--- CONTRACT VALIDATION ---'')])
    (bind (lift (get_prop j (lit ''intent''))) (\<lambda>it.
     if it \<noteq> Some (JString (lit ''reminder'')) then
       bind (lift (get_prop j (lit ''intent''))) (\<lambda>it'.
       seq (console_log (reminder_mismatch_line it'))
           (console_log [Str (lit ''(Server may need deployment for new code)'')]))
     else
       bind (lift (get_prop j (lit ''intent''))) (\<lambda>it'.
       seq (console_log [Str (check_mark @ lit '' intent:''), Val it'])
      (bind (lift (get_prop j (lit ''status''))) (\<lambda>st.
       seq (console_log [Str (check_mark @ lit '' status:''), Val st])
      (bind (lift (get_prop j (lit ''message''))) (\<lambda>m.
       seq (console_log [Str (check_mark @ lit '' message:''), Val m])
      (bind (lift (get_prop j (lit ''reminder_title''))) (\<lambda>title.
       seq (console_log [Str (check_mark @ lit '' reminder_title:''), Val title])
      (bind (lift (get_prop j (lit ''reminder_time''))) (\<lambda>time.
       seq (console_log [Str (check_mark @ lit '' reminder_time:''), Val time,
                         Str (lit ''(HH:MM format)'')])
      (bind (lift (get_prop j (lit ''reminder_date''))) (\<lambda>date.
       seq (console_log [Str (check_mark @ lit '' reminder_date:''), Val date,
                         Str (lit ''(YYYY-MM-DD format)'')])
      (bind (lift (get_prop j (lit ''status''))) (\<lambda>st'.
       if st' = Some (JString (lit ''NEEDS_CLARIFICATION'')) then
         bind (lift (get_prop j (lit ''clarification_for''))) (\<lambda>cf.
         seq (console_log [Str (check_mark @ lit '' clarification_for:''), Val cf])
             (console_log [Str (nl @ phone @ lit '' Shortcut should ASK USER for time'')]))
       else if st' = Some (JString (lit ''SUCCESS'')) then
         seq (console_log
                [Str (nl @ phone @ lit '' Shortcut should CREATE REMINDER with:'')])
        (bind (lift (get_prop j (lit ''reminder_title''))) (\<lambda>title'.
         seq (console_log [Str (lit ''   Title:''), Val title'])
        (bind (lift (get_prop j (lit ''reminder_time''))) (\<lambda>time'.
         seq (console_log [Str (lit ''   Time:''), Val time'])
        (bind (lift (get_prop j (lit ''reminder_date''))) (\<lambda>date'.
         console_log [Str (lit ''   Date:''), Val date']))))))
       else ret ())))))))))))))))"

definition rule_line :: jsstr where
  "rule_line = replicate 60 0x3D"

definition testReminder :: "(jsstr \<Rightarrow> 'n json option) \<Rightarrow> ('n request \<Rightarrow> error + response)
    \<Rightarrow> jsstr \<Rightarrow> jsstr \<Rightarrow> ('n, unit) js" where
  "testReminder parse fetch t description =
     seq (console_log [Str (nl @ rule_line)])
    (seq (console_log [Str (lit ''TEST: '' @ description)])
    (seq (console_log [Str (lit ''TEXT: '' @ [0x22] @ t @ [0x22])])
    (seq (console_log [Str rule_line])
    (bind (getJson parse fetch postUrl (post_options t)) (\<lambda>bd.
     seq (console_log [Str (lit ''HTTP:''), Num (status bd), Str (lit ''OK:''),
                       Flag (ok bd)])
    (seq (console_log [Str (nl @ lit ''JSON Response:'')])
    (seq (console_log [Stringified (json bd)])
         (validateReminderContract (json bd)))))))))"





section \<open>Notions used to state the properties\<close>

text \<open>The two requests of the note script and the request of \<open>testReminder\<close>.\<close>

definition verify_request :: "'n request" where
  "verify_request = make_request (verifyUrl TECHNICAL_ID) get_options"

definition post_request :: "jsstr \<Rightarrow> 'n request" where
  "post_request t = make_request postUrl (post_options t)"




text \<open>
  A computation that only prints: its result and the lines it adds to standard output
  are the same from every world, and it changes nothing else.
\<close>

definition logs_only :: "('n, 'a) js \<Rightarrow> bool" where
  "logs_only m \<longleftrightarrow> (\<exists>r ls. \<forall>s. m s = (r, s\<lparr>stdout := stdout s @ ls\<rparr>))"

text \<open>
  A canned service for the examples: every response has the given status; a GET is
  answered with the first body, a POST with the second; \<open>JSON.parse\<close> is a table.
\<close>

definition canned_fetch :: "nat \<Rightarrow> jsstr \<Rightarrow> jsstr \<Rightarrow> 'n request \<Rightarrow> error + response" where
  "canned_fetch code verify_body post_body req =
     Inr \<lparr>res_status = code,
          res_text = (if req_method req = lit ''GET'' then verify_body else post_body)\<rparr>"

definition canned_parse :: "(jsstr \<times> 'n json) list \<Rightarrow> jsstr \<Rightarrow> 'n json option" where
  "canned_parse table t = map_of table t"

text \<open>What the reminder validation prints when the intent it reads is \<open>undefined\<close>.\<close>

definition mismatch_report :: "'n arg list list" where
  "mismatch_report = [ [Str (nl @ lit ''--- CONTRACT VALIDATION ---'')],
                 reminder_mismatch_line None,
                 [Str (lit ''(Server may need deployment for new code)'')] ]"

text \<open>
  Example responses of the service, and a service that answers \<open>/verify-user\<close> with
  the first of two parsed values and \<open>/brain-dump\<close> with the second.
\<close>

definition example_registered :: "int json" where
  "example_registered = JObject [(lit ''registered'', JBool True)]"

definition example_unregistered :: "int json" where
  "example_unregistered =
     JObject [(lit ''registered'', JBool False),
              (lit ''registration_url'', JString (lit ''https://brain-dump-py.onrender.com/register''))]"

definition example_empty_registration :: "int json" where
  "example_empty_registration = JObject [(lit ''registration_url'', JString [])]"

definition example_good_note :: "int json" where
  "example_good_note =
     JObject [(lit ''status'', JString (lit ''SUCCESS'')), (lit ''intent'', JString (lit ''note'')),
              (lit ''message'', JString (lit ''idea''))]"

definition example_failed_note :: "int json" where
  "example_failed_note =
     JObject [(lit ''status'', JString (lit ''FAIL'')), (lit ''intent'', JString (lit ''note'')),
              (lit ''message'', JString (lit ''idea''))]"

definition example_unconvertible :: "int json" where
  "example_unconvertible =
     JObject [(lit ''status'', JString (lit ''SUCCESS'')), (lit ''intent'', JString (lit ''other'')),
              (lit ''message'', JObject [(lit ''toString'', JNumber 1)])]"

definition example_parse :: "int json \<Rightarrow> int json \<Rightarrow> jsstr \<Rightarrow> int json option" where
  "example_parse v b = canned_parse [(lit ''V'', v), (lit ''B'', b)]"

definition example_fetch :: "nat \<Rightarrow> int request \<Rightarrow> error + response" where
  "example_fetch code = canned_fetch code (lit ''V'') (lit ''B'')"

section \<open>String literals\<close>

lemma unat_of_char: "unat (of_char c :: 16 word) = of_char c"
proof -
  have "(of_char c :: 16 word) = of_nat (of_char c)"
    by (simp only: of_nat_of_char)
  moreover have "(of_char c :: nat) < 2 ^ 16"
  proof -
    have "(of_char c :: nat) mod 256 < 256"
      by (rule mod_less_divisor) simp
    also have "(of_char c :: nat) mod 256 = of_char c"
      by (rule of_char_mod_256)
    finally have "(of_char c :: nat) < 256" .
    then show ?thesis
      by (rule less_trans) simp
  qed
  ultimately show ?thesis
    by (simp add: unat_of_nat)
qed

lemma of_char_word_inj: "(of_char c :: 16 word) = of_char d \<longleftrightarrow> c = d"
proof
  assume "(of_char c :: 16 word) = of_char d"
  then have "unat (of_char c :: 16 word) = unat (of_char d :: 16 word)"
    by simp
  then have "(of_char c :: nat) = of_char d"
    by (simp only: unat_of_char)
  then show "c = d"
    by simp
qed simp

lemma lit_eq_iff [simp]: "lit a = lit b \<longleftrightarrow> a = b"
  unfolding lit_def by (rule inj_map_eq_map) (simp add: inj_def of_char_word_inj)

lemma lit_append [simp]: "lit a @ lit b = lit (a @ b)"
  by (simp add: lit_def)

section \<open>The exception monad\<close>

lemma bind_lift_Inr [simp]: "bind (lift (Inr x)) k = k x"
  by (rule ext) (simp add: bind_def lift_def)

lemma bind_lift_Inl [simp]: "bind (lift (Inl e)) k = throw e"
  by (rule ext) (simp add: bind_def lift_def throw_def)

lemma bind_throw [simp]: "bind (throw e) k = throw e"
  by (rule ext) (simp add: bind_def throw_def)

lemma seq_throw [simp]: "seq (throw e) k = throw e"
  by (simp add: seq_def)

lemma seq_ret [simp]: "seq (ret ()) k = k"
  by (rule ext) (simp add: seq_def bind_def ret_def)

lemma seq_console_log [simp]: "seq (console_log a) k s = k (s\<lparr>stdout := stdout s @ [a]\<rparr>)"
  by (simp add: seq_def bind_def console_log_def)

lemma seq_assert [simp]:
  "seq (assert c m) k = (if c then k else throw (Error (lit ''ASSERT FAILED: '' @ m)))"
  by (simp add: assert_def)

lemma throw_apply [simp]: "throw e s = (Inl e, s)"
  by (simp add: throw_def)

lemma ret_apply [simp]: "ret x s = (Inr x, s)"
  by (simp add: ret_def)

lemma console_log_apply [simp]: "console_log a s = (Inr (), s\<lparr>stdout := stdout s @ [a]\<rparr>)"
  by (simp add: console_log_def)

lemma bind_Inr: "m s = (Inr x, s') \<Longrightarrow> bind m k s = k x s'"
  by (simp add: bind_def)



lemma seq_Inr: "m s = (Inr u, s') \<Longrightarrow> seq m k s = k s'"
  by (simp add: seq_def bind_def)

subsection \<open>Values, requests and responses\<close>

lemma typeof_string [simp]: "typeof v = lit ''string'' \<longleftrightarrow> (\<exists>m. v = Some (JString m))"
  by (cases v rule: typeof.cases) (simp_all add: lit_def)

lemma typeof_object [simp]:
  "typeof (Some j) = lit ''object'' \<longleftrightarrow> (j = JNull \<or> (\<exists>xs. j = JArray xs) \<or> (\<exists>kvs. j = JObject kvs))"
  by (cases j) (simp_all add: lit_def)

lemma encode_TECHNICAL_ID [simp]: "encodeURIComponent TECHNICAL_ID = Inr TECHNICAL_ID"
  by (simp add: TECHNICAL_ID_def lit_def uri_unreserved_def)

lemma getJson_parsed:
  assumes "fetch (make_request u opts) = Inr res" and "parse (res_text res) = Some j"
  shows "getJson parse fetch u opts s =
           (Inr \<lparr>status = res_status res, ok = res_ok res, json = j\<rparr>,
            s\<lparr>requests := requests s @ [make_request u opts]\<rparr>)"
  using assms by (simp add: getJson_def)


lemma opt_chain_total: "\<exists>g. opt_chain v k = Inr g"
  by (cases v) (simp_all add: opt_chain_def)


subsection \<open>Computations that only print\<close>

lemma logs_onlyI: "(\<And>s. m s = (r, s\<lparr>stdout := stdout s @ ls\<rparr>)) \<Longrightarrow> logs_only m"
  unfolding logs_only_def by blast

lemma logs_only_ret [intro!, simp]: "logs_only (ret x)"
  by (rule logs_onlyI [where ls = "[]"]) simp

lemma logs_only_throw [intro!, simp]: "logs_only (throw e)"
  by (rule logs_onlyI [where ls = "[]"]) simp

lemma logs_only_lift [intro!, simp]: "logs_only (lift r)"
  by (rule logs_onlyI [where ls = "[]"]) (simp add: lift_def)

lemma logs_only_console_log [intro!, simp]: "logs_only (console_log a)"
  by (rule logs_onlyI [where ls = "[a]"]) simp

lemma logs_only_assert [intro!, simp]: "logs_only (assert c m)"
  by (simp add: assert_def)

lemma logs_only_bind [intro!]:
  assumes "logs_only m" and "\<And>x. logs_only (k x)"
  shows "logs_only (bind m k)"
proof -
  from assms(1) obtain r ls where m: "\<And>s. m s = (r, s\<lparr>stdout := stdout s @ ls\<rparr>)"
    unfolding logs_only_def by blast
  show ?thesis
  proof (cases r)
    case (Inl e)
    with m show ?thesis
      by (intro logs_onlyI [where r = "Inl e" and ls = ls]) (simp add: bind_def)
  next
    case (Inr x)
    from assms(2) [of x] obtain r' ls'
      where k: "\<And>s. k x s = (r', s\<lparr>stdout := stdout s @ ls'\<rparr>)"
      unfolding logs_only_def by blast
    from m Inr k show ?thesis
      by (intro logs_onlyI [where r = r' and ls = "ls @ ls'"]) (simp add: bind_def)
  qed
qed

lemma logs_only_seq [intro!]: "logs_only m \<Longrightarrow> logs_only k \<Longrightarrow> logs_only (seq m k)"
  unfolding seq_def by (rule logs_only_bind)

lemma logs_only_if [intro!]: "logs_only a \<Longrightarrow> logs_only b \<Longrightarrow> logs_only (if c then a else b)"
  by simp

lemma logs_only_validateNoteContract: "logs_only (validateNoteContract j)"
  unfolding validateNoteContract_def by (intro logs_only_seq logs_only_bind logs_only_if logs_only_console_log logs_only_assert logs_only_lift)

lemma logs_only_validateReminderContract: "logs_only (validateReminderContract j)"
  unfolding validateReminderContract_def by (intro logs_only_seq logs_only_bind logs_only_if logs_only_console_log logs_only_assert logs_only_lift logs_only_ret)


lemma logs_only_fst: "logs_only m \<Longrightarrow> fst (m s) = fst (m s')"
  unfolding logs_only_def by auto

subsection \<open>The two scripts\<close>

lemma make_request_method [simp]:
  "req_method (make_request u opts) = opt_method opts"
  "req_url (make_request u opts) = u"
  by (simp_all add: make_request_def)








lemma logs_only_world:
  assumes "logs_only m"
  shows "stderr (snd (m s)) = stderr s" and "requests (snd (m s)) = requests s"
    and "x \<in> set (stdout s) \<Longrightarrow> x \<in> set (stdout (snd (m s)))"
  using assms unfolding logs_only_def by auto

lemma validateReminderContract_header:
  "[Str (nl @ lit ''--- CONTRACT VALIDATION ---'')]
     \<in> set (stdout (snd (validateReminderContract j s)))"
  unfolding validateReminderContract_def
  apply (simp only: seq_console_log)
  apply (rule logs_only_world(3))
   apply (intro logs_only_seq logs_only_bind logs_only_if logs_only_console_log
      logs_only_lift logs_only_ret)
  apply simp
  done

lemma testReminder_parsed:
  assumes "fetch (post_request t) = Inr res" and "parse (res_text res) = Some j"
  shows "testReminder parse fetch t d s =
     validateReminderContract j
       (s\<lparr>requests := requests s @ [post_request t],
          stdout := stdout s @
            [ [Str (nl @ rule_line)], [Str (lit ''TEST: '' @ d)],
              [Str (lit ''TEXT: '' @ [0x22] @ t @ [0x22])], [Str rule_line],
              [Str (lit ''HTTP:''), Num (res_status res), Str (lit ''OK:''), Flag (res_ok res)],
              [Str (nl @ lit ''JSON Response:'')], [Stringified j] ]\<rparr>)"
  using assms unfolding testReminder_def post_request_def
  by (simp add: bind_Inr [OF getJson_parsed])


lemma noteMain_to_validation:
  assumes "fetch verify_request = Inr r1" and "parse (res_text r1) = Some v"
    and "opt_chain v (lit ''registration_url'') = Inr g" and "\<not> truthy g"
    and "fetch (post_request NOTE_TEXT) = Inr r2" and "parse (res_text r2) = Some j"
  shows "noteMain parse fetch init =
     validateNoteContract j
       \<lparr>stdout = [ [Str (lit ''=== 1) VERIFY USER ==='')],
                  [Str (lit ''HTTP:''), Num (res_status r1), Str (lit ''OK:''),
                   Flag (res_ok r1)],
                  [Str (lit ''JSON:''), Val (Some v)],
                  [Str (nl @ lit ''=== 2) BRAIN DUMP POST ==='')],
                  [Str (lit ''HTTP:''), Num (res_status r2), Str (lit ''OK:''),
                   Flag (res_ok r2)],
                  [Str (lit ''JSON:''), Val (Some j)] ],
        stderr = [], requests = [verify_request, post_request NOTE_TEXT]\<rparr>"
  using assms unfolding noteMain_def verify_request_def post_request_def
  by (simp add: init_def bind_Inr [OF getJson_parsed])

lemma run_exit_code: "exit_code (run main) = (if isl (fst (main init)) then 1 else 0)"
  by (cases "main init" rule: prod.exhaust [where 'a = "error + unit"])
     (auto simp: run_def split: sum.splits)

lemma run_stdout: "stdout (final (run main)) = stdout (snd (main init))"
  by (cases "main init") (auto simp: run_def console_error_def split: sum.splits)


lemma run_stderr:
  "stderr (final (run main)) =
     (case fst (main init) of
        Inl e \<Rightarrow> stderr (snd (main init)) @ [ [Str error_prefix, message_arg e] ]
      | Inr u \<Rightarrow> stderr (snd (main init)))"
  by (cases "main init") (auto simp: run_def console_error_def split: sum.splits)

lemma note_failure_prints_no_ok_line:
  assumes "fst (validateNoteContract j s) = Inl e" and "note_ok_line \<notin> set (stdout s)"
  shows "note_ok_line \<notin> set (stdout (snd (validateNoteContract j s)))"
proof (cases j)
  case (JObject kvs)
  show ?thesis
  proof (cases "map_of kvs (lit ''message'')")
    case None
    with assms JObject show ?thesis
      unfolding validateNoteContract_def
      by (auto simp: note_ok_line_def lit_def nl_def split: if_splits)
  next
    case (Some mv)
    with assms JObject show ?thesis
      unfolding validateNoteContract_def
      by (cases mv) (auto simp: note_ok_line_def lit_def nl_def split: if_splits)
  qed
qed (use assms in \<open>auto simp: validateNoteContract_def note_ok_line_def lit_def nl_def\<close>)

lemma note_mismatch_is_informational:
  assumes "map_of kvs (lit ''status'') = Some st" and "map_of kvs (lit ''intent'') = Some it"
    and "map_of kvs (lit ''message'') = Some m" and "it \<noteq> JString (lit ''note'')"
    and "\<not> to_string_throws m"
  shows "fst (validateNoteContract (JObject kvs) s) = Inr ()
       \<and> note_mismatch_line \<in> set (stdout (snd (validateNoteContract (JObject kvs) s)))"
  using assms unfolding validateNoteContract_def
  by (cases m) simp_all

lemma note_missing_key_is_fatal:
  assumes "map_of kvs (lit ''status'') = None \<or> map_of kvs (lit ''intent'') = None
    \<or> map_of kvs (lit ''message'') = None"
  shows "isl (fst (validateNoteContract (JObject kvs) s))"
  using assms unfolding validateNoteContract_def
  by auto

subsection \<open>The example service\<close>

lemmas example_defs = example_parse_def example_fetch_def canned_parse_def canned_fetch_def
  verify_request_def post_request_def make_request_def get_options_def post_options_def
  example_registered_def example_unregistered_def example_empty_registration_def
  example_good_note_def example_failed_note_def example_unconvertible_def

lemma example_fetch_simps [simp]:
  "example_fetch code verify_request = Inr \<lparr>res_status = code, res_text = lit ''V''\<rparr>"
  "example_fetch code (post_request t) = Inr \<lparr>res_status = code, res_text = lit ''B''\<rparr>"
  by (simp_all add: example_defs)

lemma example_parse_simps [simp]:
  "example_parse v b (lit ''V'') = Some v"
  "example_parse v b (lit ''B'') = Some b"
  by (simp_all add: example_defs)


lemma lit_Nil [simp]: "lit s = [] \<longleftrightarrow> s = []"
  by (simp add: lit_def)

lemma verify_request_method [simp]: "req_method verify_request = lit ''GET''"
  by (simp add: verify_request_def get_options_def)

lemma opt_chain_examples [simp]:
  "opt_chain example_registered (lit ''registration_url'') = Inr None"
  "opt_chain example_empty_registration (lit ''registration_url'') = Inr (Some (JString []))"
  "opt_chain example_unregistered (lit ''registration_url'')
     = Inr (Some (JString (lit ''https://brain-dump-py.onrender.com/register'')))"
  by (simp_all add: opt_chain_def example_defs)

lemma validate_examples [simp]:
  "fst (validateNoteContract example_good_note s) = Inr ()"
  "fst (validateNoteContract example_failed_note s)
     = Inl (Error (lit ''ASSERT FAILED: For note, status must be SUCCESS''))"
  unfolding validateNoteContract_def example_good_note_def example_failed_note_def
  by (simp_all add: trim_def is_white_space_def lit_def)


section \<open>The note contract\<close>





section \<open>The reminder contract\<close>

text \<open>
  Claim C1, as amended. For a parsed response whose intent is \<open>reminder\<close> and whose
  status is \<open>SUCCESS\<close>, the reminder validation prints \<open>reminder_time\<close> and
  \<open>reminder_date\<close> as they were received and checks neither their presence nor their
  shape: it never raises, whatever the two fields are.
\<close>

theorem reminder_success_never_raises:
  assumes "map_of kvs (lit ''intent'') = Some (JString (lit ''reminder''))"
    and "map_of kvs (lit ''status'') = Some (JString (lit ''SUCCESS''))"
  shows "fst (validateReminderContract (JObject kvs) s) = Inr ()
       \<and> [Str (lit ''   Time:''), Val (map_of kvs (lit ''reminder_time''))]
           \<in> set (stdout (snd (validateReminderContract (JObject kvs) s)))
       \<and> [Str (lit ''   Date:''), Val (map_of kvs (lit ''reminder_date''))]
           \<in> set (stdout (snd (validateReminderContract (JObject kvs) s)))
       \<and> stderr (snd (validateReminderContract (JObject kvs) s)) = stderr s"
  using assms unfolding validateReminderContract_def
  by simp

theorem reminder_success_never_raises_witness:
  "map_of [(lit ''intent'', JString (lit ''reminder'') :: int json),
           (lit ''status'', JString (lit ''SUCCESS'')),
           (lit ''reminder_time'', JString (lit ''25:99''))] (lit ''intent'')
     = Some (JString (lit ''reminder''))
   \<and> map_of [(lit ''intent'', JString (lit ''reminder'') :: int json),
           (lit ''status'', JString (lit ''SUCCESS'')),
           (lit ''reminder_time'', JString (lit ''25:99''))] (lit ''status'')
     = Some (JString (lit ''SUCCESS''))
   \<and> fst (validateReminderContract
        (JObject [(lit ''intent'', JString (lit ''reminder'') :: int json),
                  (lit ''status'', JString (lit ''SUCCESS'')),
                  (lit ''reminder_time'', JString (lit ''25:99''))]) init) = Inr ()
   \<and> [Str (lit ''   Time:''), Val (Some (JString (lit ''25:99'')))]
       \<in> set (stdout (snd (validateReminderContract
            (JObject [(lit ''intent'', JString (lit ''reminder'') :: int json),
                      (lit ''status'', JString (lit ''SUCCESS'')),
                      (lit ''reminder_time'', JString (lit ''25:99''))]) init)))"
  using reminder_success_never_raises
    [of "[(lit ''intent'', JString (lit ''reminder'') :: int json),
          (lit ''status'', JString (lit ''SUCCESS'')),
          (lit ''reminder_time'', JString (lit ''25:99''))]" init]
  by (simp add: lit_def)

text \<open>
  A response without \<open>reminder_time\<close> and \<open>reminder_date\<close> passes the validation.
\<close>

theorem reminder_time_unchecked_counterexample:
  "get_prop (JObject [(lit ''intent'', JString (lit ''reminder'')),
                      (lit ''status'', JString (lit ''SUCCESS''))] :: int json)
     (lit ''intent'') = Inr (Some (JString (lit ''reminder'')))
   \<and> get_prop (JObject [(lit ''intent'', JString (lit ''reminder'')),
                      (lit ''status'', JString (lit ''SUCCESS''))] :: int json)
     (lit ''status'') = Inr (Some (JString (lit ''SUCCESS'')))
   \<and> get_prop (JObject [(lit ''intent'', JString (lit ''reminder'')),
                      (lit ''status'', JString (lit ''SUCCESS''))] :: int json)
     (lit ''reminder_time'') = Inr None
   \<and> get_prop (JObject [(lit ''intent'', JString (lit ''reminder'')),
                      (lit ''status'', JString (lit ''SUCCESS''))] :: int json)
     (lit ''reminder_date'') = Inr None
   \<and> fst (validateReminderContract
        (JObject [(lit ''intent'', JString (lit ''reminder'')),
                  (lit ''status'', JString (lit ''SUCCESS''))] :: int json) init) = Inr ()"
  unfolding validateReminderContract_def
  by (simp add: lit_def)


text \<open>
  Claim C2, as amended. For a parsed response whose intent is \<open>reminder\<close> and whose
  status is \<open>NEEDS_CLARIFICATION\<close>, the reminder validation prints
  \<open>clarification_for\<close> as it was received (\<open>undefined\<close> when absent) and never raises.
\<close>

theorem reminder_clarification_never_raises:
  assumes "map_of kvs (lit ''intent'') = Some (JString (lit ''reminder''))"
    and "map_of kvs (lit ''status'') = Some (JString (lit ''NEEDS_CLARIFICATION''))"
  shows "fst (validateReminderContract (JObject kvs) s) = Inr ()
       \<and> [Str (check_mark @ lit '' clarification_for:''),
          Val (map_of kvs (lit ''clarification_for''))]
           \<in> set (stdout (snd (validateReminderContract (JObject kvs) s)))
       \<and> stderr (snd (validateReminderContract (JObject kvs) s)) = stderr s"
  using assms unfolding validateReminderContract_def
  by simp

theorem reminder_clarification_never_raises_witness:
  "map_of [(lit ''intent'', JString (lit ''reminder'') :: int json),
           (lit ''status'', JString (lit ''NEEDS_CLARIFICATION'')),
           (lit ''clarification_for'', JString [])] (lit ''intent'')
     = Some (JString (lit ''reminder''))
   \<and> map_of [(lit ''intent'', JString (lit ''reminder'') :: int json),
           (lit ''status'', JString (lit ''NEEDS_CLARIFICATION'')),
           (lit ''clarification_for'', JString [])] (lit ''status'')
     = Some (JString (lit ''NEEDS_CLARIFICATION''))
   \<and> fst (validateReminderContract
        (JObject [(lit ''intent'', JString (lit ''reminder'') :: int json),
                  (lit ''status'', JString (lit ''NEEDS_CLARIFICATION'')),
                  (lit ''clarification_for'', JString [])]) init) = Inr ()"
  using reminder_clarification_never_raises
    [of "[(lit ''intent'', JString (lit ''reminder'') :: int json),
          (lit ''status'', JString (lit ''NEEDS_CLARIFICATION'')),
          (lit ''clarification_for'', JString [])]" init]
  by (simp add: lit_def)

text \<open>A response without \<open>clarification_for\<close> passes the validation.\<close>

theorem clarification_for_unchecked_counterexample:
  "get_prop (JObject [(lit ''intent'', JString (lit ''reminder'')),
                      (lit ''status'', JString (lit ''NEEDS_CLARIFICATION''))] :: int json)
     (lit ''intent'') = Inr (Some (JString (lit ''reminder'')))
   \<and> get_prop (JObject [(lit ''intent'', JString (lit ''reminder'')),
                      (lit ''status'', JString (lit ''NEEDS_CLARIFICATION''))] :: int json)
     (lit ''status'') = Inr (Some (JString (lit ''NEEDS_CLARIFICATION'')))
   \<and> get_prop (JObject [(lit ''intent'', JString (lit ''reminder'')),
                      (lit ''status'', JString (lit ''NEEDS_CLARIFICATION''))] :: int json)
     (lit ''clarification_for'') = Inr None
   \<and> fst (validateReminderContract
        (JObject [(lit ''intent'', JString (lit ''reminder'')),
                  (lit ''status'', JString (lit ''NEEDS_CLARIFICATION''))] :: int json) init)
     = Inr ()"
  unfolding validateReminderContract_def
  by (simp add: lit_def)


section \<open>Bodies that are not objects\<close>

text \<open>
  Claim C10, as amended. The reminder validation reads \<open>intent\<close> without checking
  that the body is an object. On \<open>null\<close> the read throws a TypeError, which is
  neither a failed assertion nor an intent mismatch. On every other JSON value that is not
  an object (a boolean, a number, a string), and on an array, the read gives
  \<open>undefined\<close>, so the validation reports an intent mismatch and returns normally. The
  note validation asserts that the body is an object first: on \<open>null\<close>, a boolean, a
  number or a string it fails with that assertion.
\<close>

theorem reminder_validation_on_non_objects:
  "validateReminderContract (JNull :: 'n json) s =
     (Inl (TypeError (ReadPropertyOfNull (lit ''intent''))),
      s\<lparr>stdout := stdout s @ [ [Str (nl @ lit ''--- CONTRACT VALIDATION ---'')] ]\<rparr>)
   \<and> validateReminderContract (JBool b :: 'n json) s =
       (Inr (), s\<lparr>stdout := stdout s @ mismatch_report\<rparr>)
   \<and> validateReminderContract (JNumber n) s =
       (Inr (), s\<lparr>stdout := stdout s @ mismatch_report\<rparr>)
   \<and> validateReminderContract (JString t :: 'n json) s =
       (Inr (), s\<lparr>stdout := stdout s @ mismatch_report\<rparr>)
   \<and> validateReminderContract (JArray xs) s =
       (Inr (), s\<lparr>stdout := stdout s @ mismatch_report\<rparr>)
   \<and> fst (validateNoteContract (JNull :: 'n json) s) =
       Inl (Error (lit ''ASSERT FAILED: Response must be an object''))
   \<and> fst (validateNoteContract (JBool b :: 'n json) s) =
       Inl (Error (lit ''ASSERT FAILED: Response must be an object''))
   \<and> fst (validateNoteContract (JNumber n) s) =
       Inl (Error (lit ''ASSERT FAILED: Response must be an object''))
   \<and> fst (validateNoteContract (JString t :: 'n json) s) =
       Inl (Error (lit ''ASSERT FAILED: Response must be an object''))"
  unfolding validateReminderContract_def validateNoteContract_def mismatch_report_def
  by simp

text \<open>On the body \<open>true\<close> the reminder validation returns normally.\<close>

theorem reminder_non_object_counterexample:
  "validateReminderContract (JBool True :: int json) init =
     (Inr (),
      init\<lparr>stdout := mismatch_report\<rparr>)"
  unfolding validateReminderContract_def mismatch_report_def
  by (simp add: init_def)

section \<open>Validation is repeatable\<close>


section \<open>Responses that are not JSON\<close>




section \<open>The HTTP status\<close>

text \<open>
  Claim C9. Whatever the status of a response (2xx or not), when its body parses
  \<open>getJson\<close> returns the parsed body with the status and the \<open>ok\<close> flag;
  \<open>testReminder\<close> prints them, goes on into the contract validation, and its result is
  the result of that validation on the parsed body alone; likewise the note script, whose
  exit code is decided by the note validation of the parsed body. No branch reads the
  status or the flag.
\<close>

theorem status_alone_never_aborts:
  "(fetch (make_request u opts) = Inr res \<and> parse (res_text res) = Some j \<longrightarrow>
      getJson parse fetch u opts s =
        (Inr \<lparr>status = res_status res, ok = res_ok res, json = j\<rparr>,
         s\<lparr>requests := requests s @ [make_request u opts]\<rparr>))
   \<and> (fetch (post_request t) = Inr res \<and> parse (res_text res) = Some j \<longrightarrow>
        fst (testReminder parse fetch t d s) = fst (validateReminderContract j init)
        \<and> [Str (lit ''HTTP:''), Num (res_status res), Str (lit ''OK:''), Flag (res_ok res)]
            \<in> set (stdout (snd (testReminder parse fetch t d s)))
        \<and> [Str (nl @ lit ''--- CONTRACT VALIDATION ---'')]
            \<in> set (stdout (snd (testReminder parse fetch t d s))))
   \<and> (fetch verify_request = Inr r1 \<and> parse (res_text r1) = Some v
        \<and> opt_chain v (lit ''registration_url'') = Inr g \<and> \<not> truthy g
        \<and> fetch (post_request NOTE_TEXT) = Inr res \<and> parse (res_text res) = Some j \<longrightarrow>
          fst (noteMain parse fetch init) = fst (validateNoteContract j init)
          \<and> exit_code (debug_note_flow parse fetch)
              = (if isl (fst (validateNoteContract j init)) then 1 else 0))"
proof (intro conjI impI)
  assume "fetch (make_request u opts) = Inr res \<and> parse (res_text res) = Some j"
  then show "getJson parse fetch u opts s =
        (Inr \<lparr>status = res_status res, ok = res_ok res, json = j\<rparr>,
         s\<lparr>requests := requests s @ [make_request u opts]\<rparr>)"
    by (simp add: getJson_parsed)
next
  assume a: "fetch (post_request t) = Inr res \<and> parse (res_text res) = Some j"
  let ?s = "s\<lparr>requests := requests s @ [post_request t],
          stdout := stdout s @
            [ [Str (nl @ rule_line)], [Str (lit ''TEST: '' @ d)],
              [Str (lit ''TEXT: '' @ [0x22] @ t @ [0x22])], [Str rule_line],
              [Str (lit ''HTTP:''), Num (res_status res), Str (lit ''OK:''), Flag (res_ok res)],
              [Str (nl @ lit ''JSON Response:'')], [Stringified j] ]\<rparr>"
  from a have m: "testReminder parse fetch t d s = validateReminderContract j ?s"
    by (intro testReminder_parsed) simp_all
  show "fst (testReminder parse fetch t d s) = fst (validateReminderContract j init)"
    unfolding m by (rule logs_only_fst [OF logs_only_validateReminderContract])
  show "[Str (lit ''HTTP:''), Num (res_status res), Str (lit ''OK:''), Flag (res_ok res)]
            \<in> set (stdout (snd (testReminder parse fetch t d s)))"
    unfolding m
    by (rule logs_only_world(3) [OF logs_only_validateReminderContract]) simp
  show "[Str (nl @ lit ''--- CONTRACT VALIDATION ---'')]
            \<in> set (stdout (snd (testReminder parse fetch t d s)))"
    unfolding m by (rule validateReminderContract_header)
next
  assume a: "fetch verify_request = Inr r1 \<and> parse (res_text r1) = Some v
        \<and> opt_chain v (lit ''registration_url'') = Inr g \<and> \<not> truthy g
        \<and> fetch (post_request NOTE_TEXT) = Inr res \<and> parse (res_text res) = Some j"
  let ?s = "\<lparr>stdout = [ [Str (lit ''=== 1) VERIFY USER ==='')],
                  [Str (lit ''HTTP:''), Num (res_status r1), Str (lit ''OK:''),
                   Flag (res_ok r1)],
                  [Str (lit ''JSON:''), Val (Some v)],
                  [Str (nl @ lit ''=== 2) BRAIN DUMP POST ==='')],
                  [Str (lit ''HTTP:''), Num (res_status res), Str (lit ''OK:''),
                   Flag (res_ok res)],
                  [Str (lit ''JSON:''), Val (Some j)] ],
        stderr = [], requests = [verify_request, post_request NOTE_TEXT]\<rparr>"
  from a have m: "noteMain parse fetch init = validateNoteContract j ?s"
    by (intro noteMain_to_validation [where ?r1.0 = r1 and ?r2.0 = res and g = g]) simp_all
  show f: "fst (noteMain parse fetch init) = fst (validateNoteContract j init)"
    unfolding m by (rule logs_only_fst [OF logs_only_validateNoteContract])
  show "exit_code (debug_note_flow parse fetch)
              = (if isl (fst (validateNoteContract j init)) then 1 else 0)"
    unfolding debug_note_flow_def run_exit_code f by (rule refl)
qed


theorem status_alone_never_aborts_witness:
  "\<not> res_ok \<lparr>res_status = 500, res_text = lit ''B''\<rparr>
   \<and> example_fetch 500 (make_request postUrl (post_options TEST_WITH_TIME))
       = Inr \<lparr>res_status = 500, res_text = lit ''B''\<rparr>
   \<and> example_parse example_registered example_good_note (lit ''B'') = Some example_good_note
   \<and> example_fetch 500 verify_request = Inr \<lparr>res_status = 500, res_text = lit ''V''\<rparr>
   \<and> example_parse example_registered example_good_note (lit ''V'') = Some example_registered
   \<and> opt_chain example_registered (lit ''registration_url'') = Inr None
   \<and> \<not> truthy (None :: int json option)
   \<and> example_fetch 500 (post_request NOTE_TEXT)
       = Inr \<lparr>res_status = 500, res_text = lit ''B''\<rparr>
   \<and> getJson (example_parse example_registered example_good_note) (example_fetch 500) postUrl
        (post_options TEST_WITH_TIME) init
       = (Inr \<lparr>status = 500, ok = False, json = example_good_note\<rparr>,
          init\<lparr>requests := [post_request TEST_WITH_TIME]\<rparr>)
   \<and> fst (testReminder (example_parse example_registered example_good_note) (example_fetch 500)
        TEST_WITH_TIME (lit ''With time'') init) = Inr ()
   \<and> exit_code (debug_note_flow (example_parse example_registered example_good_note)
        (example_fetch 500)) = 0"
proof -
  have f: "example_fetch 500 (make_request postUrl (post_options t))
       = Inr \<lparr>res_status = 500, res_text = lit ''B''\<rparr>" for t
    using example_fetch_simps(2) [of 500 t] by (simp add: post_request_def)
  have r: "fst (validateReminderContract example_good_note s) = Inr ()" for s
    unfolding validateReminderContract_def example_good_note_def by simp
  show ?thesis
    using status_alone_never_aborts
      [where fetch = "example_fetch 500"
         and parse = "example_parse example_registered example_good_note"
         and u = postUrl and opts = "post_options TEST_WITH_TIME"
         and res = "\<lparr>res_status = 500, res_text = lit ''B''\<rparr>"
         and j = example_good_note and s = init and t = TEST_WITH_TIME
         and d = "lit ''With time''"
         and ?r1.0 = "\<lparr>res_status = 500, res_text = lit ''V''\<rparr>"
         and v = example_registered and g = None]
    by (simp add: f r res_ok_def post_request_def init_def)
qed

section \<open>Failed assertions and the end of a run\<close>

text \<open>
  Claim C5. A failed assertion throws an error that carries \<open>ASSERT FAILED:\<close> and the
  description of the condition; nothing after it runs and the world is as it was. A run
  ends with exit code 1 exactly when its body threw, the message of the error is then the
  one line added to standard error, and with exit code 0 otherwise. So when the note
  validation of the response to \<open>/brain-dump\<close> throws, the note script ends with exit
  code 1, that error alone on standard error, and the line that reports success is never
  printed.
\<close>

theorem failed_assertion_is_a_hard_stop:
  "seq (assert False msg) k s = (Inl (Error (lit ''ASSERT FAILED: '' @ msg)), s)
   \<and> exit_code (run main) = (if isl (fst (main init)) then 1 else 0)
   \<and> stdout (final (run main)) = stdout (snd (main init))
   \<and> stderr (final (run main))
       = (case fst (main init) of
            Inl e \<Rightarrow> stderr (snd (main init)) @ [ [Str error_prefix, message_arg e] ]
          | Inr u \<Rightarrow> stderr (snd (main init)))
   \<and> (fetch verify_request = Inr r1 \<and> parse (res_text r1) = Some v
        \<and> opt_chain v (lit ''registration_url'') = Inr g \<and> \<not> truthy g
        \<and> fetch (post_request NOTE_TEXT) = Inr r2 \<and> parse (res_text r2) = Some j
        \<and> fst (validateNoteContract j init) = Inl e' \<longrightarrow>
          exit_code (debug_note_flow parse fetch) = 1
          \<and> stderr (final (debug_note_flow parse fetch))
              = [ [Str error_prefix, message_arg e'] ]
          \<and> note_ok_line \<notin> set (stdout (final (debug_note_flow parse fetch))))"
proof (intro conjI impI)
  show "seq (assert False msg) k s = (Inl (Error (lit ''ASSERT FAILED: '' @ msg)), s)"
    by simp
next
  show "exit_code (run main) = (if isl (fst (main init)) then 1 else 0)"
    by (rule run_exit_code)
next
  show "stdout (final (run main)) = stdout (snd (main init))"
    by (rule run_stdout)
next
  show "stderr (final (run main))
       = (case fst (main init) of
            Inl e \<Rightarrow> stderr (snd (main init)) @ [ [Str error_prefix, message_arg e] ]
          | Inr u \<Rightarrow> stderr (snd (main init)))"
    by (rule run_stderr)
next
  assume a: "fetch verify_request = Inr r1 \<and> parse (res_text r1) = Some v
        \<and> opt_chain v (lit ''registration_url'') = Inr g \<and> \<not> truthy g
        \<and> fetch (post_request NOTE_TEXT) = Inr r2 \<and> parse (res_text r2) = Some j
        \<and> fst (validateNoteContract j init) = Inl e'"
  let ?s = "\<lparr>stdout = [ [Str (lit ''=== 1) VERIFY USER ==='')],
                  [Str (lit ''HTTP:''), Num (res_status r1), Str (lit ''OK:''),
                   Flag (res_ok r1)],
                  [Str (lit ''JSON:''), Val (Some v)],
                  [Str (nl @ lit ''=== 2) BRAIN DUMP POST ==='')],
                  [Str (lit ''HTTP:''), Num (res_status r2), Str (lit ''OK:''),
                   Flag (res_ok r2)],
                  [Str (lit ''JSON:''), Val (Some j)] ],
        stderr = [], requests = [verify_request, post_request NOTE_TEXT]\<rparr>"
  from a have m: "noteMain parse fetch init = validateNoteContract j ?s"
    by (intro noteMain_to_validation [where ?r1.0 = r1 and ?r2.0 = r2 and g = g]) simp_all
  from a have f: "fst (validateNoteContract j ?s) = Inl e'"
    using logs_only_fst [OF logs_only_validateNoteContract, of j ?s init] by simp
  have n: "note_ok_line \<notin> set (stdout ?s)"
    by (simp add: note_ok_line_def lit_def nl_def)
  have e: "stderr (snd (validateNoteContract j ?s)) = []"
    using logs_only_world(1) [OF logs_only_validateNoteContract, of j ?s] by simp
  show "exit_code (debug_note_flow parse fetch) = 1"
    unfolding debug_note_flow_def by (simp add: run_exit_code m f)
  show "stderr (final (debug_note_flow parse fetch)) = [ [Str error_prefix, message_arg e'] ]"
    unfolding debug_note_flow_def by (simp add: run_stderr m f e)
  show "note_ok_line \<notin> set (stdout (final (debug_note_flow parse fetch)))"
    unfolding debug_note_flow_def run_stdout m
    by (rule note_failure_prints_no_ok_line [OF f n])
qed


theorem failed_assertion_is_a_hard_stop_witness:
  "seq (assert False (lit ''Missing'')) (console_log [Str (lit ''next'')]) (init :: int world)
       = (Inl (Error (lit ''ASSERT FAILED: Missing'')), init)
   \<and> example_fetch 200 verify_request = Inr \<lparr>res_status = 200, res_text = lit ''V''\<rparr>
   \<and> example_parse example_registered example_failed_note (lit ''V'') = Some example_registered
   \<and> opt_chain example_registered (lit ''registration_url'') = Inr None
   \<and> \<not> truthy (None :: int json option)
   \<and> example_fetch 200 (post_request NOTE_TEXT) = Inr \<lparr>res_status = 200, res_text = lit ''B''\<rparr>
   \<and> example_parse example_registered example_failed_note (lit ''B'') = Some example_failed_note
   \<and> fst (validateNoteContract example_failed_note init)
       = Inl (Error (lit ''ASSERT FAILED: For note, status must be SUCCESS''))
   \<and> fst (noteMain (example_parse example_registered example_failed_note)
        (example_fetch 200) init)
       = Inl (Error (lit ''ASSERT FAILED: For note, status must be SUCCESS''))
   \<and> exit_code (debug_note_flow (example_parse example_registered example_failed_note)
        (example_fetch 200)) = 1
   \<and> stderr (final (debug_note_flow (example_parse example_registered example_failed_note)
        (example_fetch 200)))
       = [ [Str error_prefix, Str (lit ''ASSERT FAILED: For note, status must be SUCCESS'')] ]
   \<and> note_ok_line \<notin> set (stdout (final (debug_note_flow
        (example_parse example_registered example_failed_note) (example_fetch 200))))"
proof -
  have m: "noteMain (example_parse example_registered example_failed_note)
             (example_fetch 200) init
      = validateNoteContract example_failed_note
       \<lparr>stdout = [ [Str (lit ''=== 1) VERIFY USER ==='')],
                  [Str (lit ''HTTP:''), Num 200, Str (lit ''OK:''), Flag True],
                  [Str (lit ''JSON:''), Val (Some example_registered)],
                  [Str (nl @ lit ''=== 2) BRAIN DUMP POST ==='')],
                  [Str (lit ''HTTP:''), Num 200, Str (lit ''OK:''), Flag True],
                  [Str (lit ''JSON:''), Val (Some example_failed_note)] ],
        stderr = [], requests = [verify_request, post_request NOTE_TEXT]\<rparr>"
    using noteMain_to_validation
      [where fetch = "example_fetch 200"
         and parse = "example_parse example_registered example_failed_note"
         and g = None, OF _ _ opt_chain_examples(1)]
    by (simp add: res_ok_def)
  show ?thesis
    using failed_assertion_is_a_hard_stop
      [where msg = "lit ''Missing''" and k = "console_log [Str (lit ''next'')]"
         and s = "init :: int world"
         and main = "noteMain (example_parse example_registered example_failed_note)
                       (example_fetch 200)"
         and fetch = "example_fetch 200"
         and parse = "example_parse example_registered example_failed_note"
         and ?r1.0 = "\<lparr>res_status = 200, res_text = lit ''V''\<rparr>"
         and v = example_registered and g = None
         and ?r2.0 = "\<lparr>res_status = 200, res_text = lit ''B''\<rparr>"
         and j = example_failed_note
         and e' = "Error (lit ''ASSERT FAILED: For note, status must be SUCCESS'')"]
    by (simp add: m)
qed


section \<open>The registration shortcut\<close>







section \<open>A message that cannot be converted to a string\<close>

text \<open>
  Claim C4. The note validation asserts the three keys whatever the intent
  (\<open>note_missing_key_is_fatal\<close>), and an intent other than \<open>note\<close> is reported
  without failing when the message can be converted to a string
  (\<open>note_mismatch_is_informational\<close>). But line 75 concatenates the message to a
  string before the intent is looked at: for the response below, whose message is an
  object with an own property \<open>toString\<close>, the concatenation throws a TypeError and the
  run ends with exit code 1, although the intent is not \<open>note\<close>.
\<close>

theorem unconvertible_message_stops_the_run:
  "get_prop example_unconvertible (lit ''intent'') = Inr (Some (JString (lit ''other'')))
   \<and> exit_code (debug_note_flow (example_parse example_registered example_unconvertible)
        (example_fetch 200)) = 1
   \<and> stderr (final (debug_note_flow (example_parse example_registered example_unconvertible)
        (example_fetch 200)))
      = [ [Str error_prefix, EngineMessage (TypeError CannotConvertToPrimitive)] ]"
proof -
  have v: "fst (validateNoteContract example_unconvertible s)
      = Inl (TypeError CannotConvertToPrimitive)" for s
    unfolding validateNoteContract_def example_unconvertible_def by simp
  have o: "opt_chain example_registered (lit ''registration_url'') = Inr None"
    by (simp add: opt_chain_def example_registered_def)
  have m: "noteMain (example_parse example_registered example_unconvertible) (example_fetch 200) init
      = validateNoteContract example_unconvertible
       \<lparr>stdout = [ [Str (lit ''=== 1) VERIFY USER ==='')],
                  [Str (lit ''HTTP:''), Num 200, Str (lit ''OK:''), Flag True],
                  [Str (lit ''JSON:''), Val (Some example_registered)],
                  [Str (nl @ lit ''=== 2) BRAIN DUMP POST ==='')],
                  [Str (lit ''HTTP:''), Num 200, Str (lit ''OK:''), Flag True],
                  [Str (lit ''JSON:''), Val (Some example_unconvertible)] ],
        stderr = [], requests = [verify_request, post_request NOTE_TEXT]\<rparr>"
    using noteMain_to_validation
      [where fetch = "example_fetch 200"
         and parse = "example_parse example_registered example_unconvertible"
         and g = None, OF _ _ o]
    by (simp add: res_ok_def)
  show ?thesis
    unfolding debug_note_flow_def run_exit_code run_stderr m
    using logs_only_world(1) [OF logs_only_validateNoteContract, of example_unconvertible]
    by (simp add: v) (simp add: example_unconvertible_def)
qed

end
